theory Spec2Isabelle
  imports Main
begin

section \<open>Values, completions and the store of Result objects\<close>

text \<open>
  The payload of a Result is declared \<open>any\<close>, and a \<open>catch\<close> clause receives whatever was
  thrown, so payloads and captured errors range over all JavaScript values. \<open>Object r\<close> is a
  reference to an object that is not an instance of \<open>Failure\<close> (an \<open>Error\<close>, say); two such
  values are equal exactly when they are the same reference. \<open>Failure e\<close> is an instance of
  the class \<open>Failure\<close> of Failure.ts, whose only field is \<open>exception\<close>. Numbers are
  represented by the integers and \<open>NaN\<close>. Equality of values in this theory is identity of
  the value.
\<close>

datatype js_value =
    Undefined
  | Null
  | Boolean bool
  | Number int
  | NaN
  | Str string
  | BigInt int
  | Object nat
  | Failure (exception: js_value)

text \<open>\<open>v instanceof Failure\<close>.\<close>

fun instanceof_Failure :: "js_value \<Rightarrow> bool" where
  "instanceof_Failure (Failure e) = True"
| "instanceof_Failure v = False"

text \<open>The conversion to a boolean that \<open>if (exception)\<close> applies to its condition.\<close>

fun truthy :: "js_value \<Rightarrow> bool" where
  "truthy Undefined = False"
| "truthy Null = False"
| "truthy (Boolean b) = b"
| "truthy (Number n) = (n \<noteq> 0)"
| "truthy NaN = False"
| "truthy (Str s) = (s \<noteq> [])"
| "truthy (BigInt n) = (n \<noteq> 0)"
| "truthy (Object r) = True"
| "truthy (Failure e) = True"

text \<open>A call either returns a value or throws one.\<close>

datatype 'a completion = Return 'a | Throw js_value

text \<open>
  An instance of the class \<open>Result\<close>: its private field \<open>value\<close>, and whether
  \<open>Object.freeze\<close> has been applied to it.
\<close>

record Result =
  value' :: js_value
  frozen :: bool

text \<open>
  The state a call runs in: the Result objects constructed so far, a reference to one being
  its position, and \<open>user\<close>, the rest of the program's state, which only callbacks touch.
  A call takes the state and gives back its completion and the state it leaves.
\<close>

record 'u state =
  results :: "Result list"
  user :: 'u

type_synonym ('a, 'u) js = "'u state \<Rightarrow> 'a completion \<times> 'u state"

text \<open>Sequencing: a thrown value skips the rest, as an uncaught exception does.\<close>

definition js_bind :: "('a, 'u) js \<Rightarrow> ('a \<Rightarrow> ('b, 'u) js) \<Rightarrow> ('b, 'u) js" where
  "js_bind m k s = (case m s of (Return x, s') \<Rightarrow> k x s' | (Throw e, s') \<Rightarrow> (Throw e, s'))"

text \<open>\<open>try { body } catch (e) { handler }\<close>.\<close>

definition js_try :: "('a, 'u) js \<Rightarrow> (js_value \<Rightarrow> ('a, 'u) js) \<Rightarrow> ('a, 'u) js" where
  "js_try body handler s =
     (case body s of (Return x, s') \<Rightarrow> (Return x, s') | (Throw e, s') \<Rightarrow> handler e s')"

section \<open>Failure.ts\<close>

definition createFailure :: "js_value \<Rightarrow> js_value" where
  "createFailure exception' = Failure exception'"

section \<open>Result.ts\<close>

text \<open>
  The constructor: \<open>new Result(value)\<close> makes a new object, stores the argument in its
  field, and freezes it.
\<close>

definition Result_constructor :: "js_value \<Rightarrow> (nat, 'u) js" where
  "Result_constructor v s =
     (let this = length (results s);
          s1 = s\<lparr>results := results s @ [\<lparr>value' = v, frozen = False\<rparr>]\<rparr>;
          s2 = s1\<lparr>results := (results s1)[this := (results s1 ! this)\<lparr>frozen := True\<rparr>]\<rparr>
      in (Return this, s2))"

text \<open>\<open>this.value\<close>, for a reference \<open>this\<close> to a constructed Result.\<close>

definition this_value :: "nat \<Rightarrow> 'u state \<Rightarrow> js_value" where
  "this_value this s = value' (results s ! this)"

definition isFailure :: "nat \<Rightarrow> 'u state \<Rightarrow> bool" where
  "isFailure this s = instanceof_Failure (this_value this s)"

definition isSuccess :: "nat \<Rightarrow> 'u state \<Rightarrow> bool" where
  "isSuccess this s = (\<not> isFailure this s)"

definition getOrNull :: "nat \<Rightarrow> 'u state \<Rightarrow> js_value" where
  "getOrNull this s = (if isSuccess this s then this_value this s else Null)"

definition exceptionOrNull :: "nat \<Rightarrow> 'u state \<Rightarrow> js_value" where
  "exceptionOrNull this s =
     (if instanceof_Failure (this_value this s) then exception (this_value this s) else Null)"

definition throwOnFailure :: "nat \<Rightarrow> (unit, 'u) js" where
  "throwOnFailure this s =
     (if instanceof_Failure (this_value this s) then (Throw (exception (this_value this s)), s)
      else (Return (), s))"

definition getOrThrow :: "nat \<Rightarrow> (js_value, 'u) js" where
  "getOrThrow this = js_bind (throwOnFailure this) (\<lambda>_ s. (Return (this_value this s), s))"

text \<open>
  The static factories. A parameter with a default takes the default when the argument is
  missing or \<open>undefined\<close>: \<open>value: T | null = null\<close>.
\<close>

definition success :: "js_value \<Rightarrow> (nat, 'u) js" where
  "success v = Result_constructor (if v = Undefined then Null else v)"

definition failure :: "js_value \<Rightarrow> (nat, 'u) js" where
  "failure exception' = Result_constructor (createFailure exception')"


definition getOrDefault :: "nat \<Rightarrow> js_value \<Rightarrow> 'u state \<Rightarrow> js_value" where
  "getOrDefault this defaultValue s =
     (if isFailure this s then defaultValue else this_value this s)"


section \<open>utils.ts and the extension of Function.prototype\<close>

definition runCatching :: "(js_value, 'u) js \<Rightarrow> (nat, 'u) js" where
  "runCatching callback = js_try (js_bind callback success) (\<lambda>e. failure e)"

text \<open>The receiver \<open>this\<close> is the function that is called.\<close>

definition Function_runCatching :: "(js_value, 'u) js \<Rightarrow> (nat, 'u) js" where
  "Function_runCatching this = js_try (js_bind this success) (\<lambda>e. failure e)"

section \<open>Result.ts: the combinators\<close>

definition map_Result :: "nat \<Rightarrow> (js_value \<Rightarrow> (js_value, 'u) js) \<Rightarrow> (nat, 'u) js" where
  "map_Result this transform s =
     (if isSuccess this s then js_bind (transform (this_value this s)) success s
      else failure (exceptionOrNull this s) s)"

definition mapCatching :: "nat \<Rightarrow> (js_value \<Rightarrow> (js_value, 'u) js) \<Rightarrow> (nat, 'u) js" where
  "mapCatching this transform s =
     (if isSuccess this s then runCatching (\<lambda>s'. transform (this_value this s') s') s
      else failure (exceptionOrNull this s) s)"

definition recover :: "nat \<Rightarrow> (js_value \<Rightarrow> (js_value, 'u) js) \<Rightarrow> (nat, 'u) js" where
  "recover this transform s =
     (let exception' = exceptionOrNull this s
      in if truthy exception' then js_bind (transform exception') success s
         else (Return this, s))"

definition recoverCatching :: "nat \<Rightarrow> (js_value \<Rightarrow> (js_value, 'u) js) \<Rightarrow> (nat, 'u) js" where
  "recoverCatching this transform s =
     (let exception' = exceptionOrNull this s
      in if truthy exception' then runCatching (\<lambda>s'. transform exception' s') s
         else (Return this, s))"



section \<open>Frozen objects and writes from outside the class\<close>


text \<open>
  The slot of a frozen Result before and after some code has run: the same value, or, when
  it held a marker, still a marker.
\<close>

definition same_slot :: "js_value \<Rightarrow> js_value \<Rightarrow> bool" where
  "same_slot v v' = (if instanceof_Failure v then instanceof_Failure v' else v' = v)"

text \<open>
  Code that runs from state \<open>s\<close> to state \<open>s'\<close> respects the freeze: no Result is taken
  away, and one that is frozen in \<open>s\<close> is frozen in \<open>s'\<close> with the same slot.
\<close>

definition respects_freeze :: "'u state \<Rightarrow> 'u state \<Rightarrow> bool" where
  "respects_freeze s s' =
     (length (results s) \<le> length (results s') \<and>
      (\<forall>i \<in> {..<length (results s)}.
         frozen (results s ! i) \<longrightarrow>
           frozen (results s' ! i) \<and> same_slot (value' (results s ! i)) (value' (results s' ! i))))"


section \<open>What the constructor and the factories leave in the store\<close>

lemma Result_constructor_eq:
  "Result_constructor v s =
     (Return (length (results s)), s\<lparr>results := results s @ [\<lparr>value' = v, frozen = True\<rparr>]\<rparr>)"
  by (simp add: Result_constructor_def Let_def)

lemma success_eq:
  "success v s =
     (Return (length (results s)),
      s\<lparr>results := results s @ [\<lparr>value' = (if v = Undefined then Null else v), frozen = True\<rparr>]\<rparr>)"
  by (simp add: success_def Result_constructor_eq)

lemma failure_eq:
  "failure e s =
     (Return (length (results s)),
      s\<lparr>results := results s @ [\<lparr>value' = Failure e, frozen = True\<rparr>]\<rparr>)"
  by (simp add: failure_def createFailure_def Result_constructor_eq)

lemmas reads = isFailure_def isSuccess_def getOrNull_def exceptionOrNull_def this_value_def
  nth_append

section \<open>What the operations add to the store\<close>



















lemma respects_freeze_refl: "respects_freeze s s"
  by (simp add: respects_freeze_def same_slot_def)



section \<open>The factories and the classification\<close>

text \<open>
  C1, as amended. For every value \<open>v\<close> that is neither \<open>undefined\<close> nor an instance of
  \<open>Failure\<close>, the outcome that \<open>Result.success(v)\<close> returns is classified as a success and
  not as a failure, \<open>getOrNull()\<close> returns \<open>v\<close> and \<open>exceptionOrNull()\<close> returns \<open>null\<close>.
  \<open>Result.success(undefined)\<close> is \<open>Result.success(null)\<close>, by the default of the parameter.
\<close>

theorem success_classification:
  assumes "v \<noteq> Undefined" and "\<not> instanceof_Failure v"
  shows "(case success v s of
            (Return this, s') \<Rightarrow>
               isSuccess this s' \<and> \<not> isFailure this s' \<and> getOrNull this s' = v \<and>
               exceptionOrNull this s' = Null
          | (Throw e, s') \<Rightarrow> False) \<and>
         success Undefined s = success Null s"
  using assms by (simp add: success_eq reads)

theorem success_classification_witness:
  "Number 5 \<noteq> Undefined \<and> \<not> instanceof_Failure (Number 5) \<and>
   (case success (Number 5) \<lparr>results = [], user = ()\<rparr> of
      (Return this, s') \<Rightarrow>
         isSuccess this s' \<and> \<not> isFailure this s' \<and> getOrNull this s' = Number 5 \<and>
         exceptionOrNull this s' = Null
    | (Throw e, s') \<Rightarrow> False)"
  using success_classification [of "Number 5" "\<lparr>results = [], user = ()\<rparr>"] by simp

text \<open>
  C1 as it is written fails at two values. \<open>Result.success(undefined)\<close> returns the outcome
  at reference 0 of the empty store, and its \<open>getOrNull()\<close> is \<open>null\<close>, not \<open>undefined\<close>.
  \<open>Result.success(new Failure(o))\<close>, for an object \<open>o\<close>, is not classified as a success,
  and its \<open>exceptionOrNull()\<close> is not \<open>null\<close>.
\<close>

theorem success_classification_counterexample:
  "fst (success Undefined \<lparr>results = [], user = ()\<rparr>) = Return 0 \<and>
   getOrNull 0 (snd (success Undefined \<lparr>results = [], user = ()\<rparr>)) \<noteq> Undefined \<and>
   fst (success (Failure (Object 1)) \<lparr>results = [], user = ()\<rparr>) = Return 0 \<and>
   \<not> isSuccess 0 (snd (success (Failure (Object 1)) \<lparr>results = [], user = ()\<rparr>)) \<and>
   exceptionOrNull 0 (snd (success (Failure (Object 1)) \<lparr>results = [], user = ()\<rparr>)) \<noteq> Null"
  by (simp add: success_eq reads)

text \<open>
  C2. For every \<open>e\<close>, the outcome that \<open>Result.success(new Failure(e))\<close> returns is classified
  as a failure and not as a success, and its \<open>exceptionOrNull()\<close> returns \<open>e\<close>.
\<close>

theorem success_of_Failure_is_failure:
  "(case success (Failure e) s of
      (Return this, s') \<Rightarrow>
         isFailure this s' \<and> \<not> isSuccess this s' \<and> exceptionOrNull this s' = e
    | (Throw x, s') \<Rightarrow> False)"
  by (simp add: success_eq reads)

section \<open>runCatching\<close>

text \<open>
  C3. The function \<open>runCatching\<close> of utils.ts and the method \<open>runCatching\<close> added to
  \<open>Function.prototype\<close> are the same function of the computation \<open>f\<close>. Both run \<open>f\<close> once:
  when \<open>f\<close> returns \<open>r\<close> the result is \<open>Result.success(r)\<close>, built in the state \<open>f\<close> left;
  when \<open>f\<close> throws \<open>e\<close> the result is \<open>Result.failure(e)\<close>, built in the state \<open>f\<close> left, a
  failure whose \<open>exceptionOrNull()\<close> is \<open>e\<close>. The call always returns an outcome and never
  throws, and the rest of the program's state is as one run of \<open>f\<close> leaves it.
\<close>

theorem runCatching_forms_agree:
  "Function_runCatching f = runCatching f \<and>
   (case f s of
      (Return r, s1) \<Rightarrow> runCatching f s = success r s1
    | (Throw e, s1) \<Rightarrow>
        runCatching f s = failure e s1 \<and>
        (case runCatching f s of
           (Return this, s2) \<Rightarrow> isFailure this s2 \<and> exceptionOrNull this s2 = e
         | (Throw x, s2) \<Rightarrow> False)) \<and>
   (\<exists>this. fst (runCatching f s) = Return this) \<and>
   user (snd (runCatching f s)) = user (snd (f s))"
proof -
  have same: "Function_runCatching f = runCatching f"
    by (simp add: Function_runCatching_def runCatching_def)
  obtain c s1 where fs: "f s = (c, s1)"
    by (cases "f s")
  show ?thesis
  proof (cases c)
    case (Return r)
    with fs same show ?thesis
      by (simp add: runCatching_def js_try_def js_bind_def success_eq)
  next
    case (Throw e)
    with fs same show ?thesis
      by (simp add: runCatching_def js_try_def js_bind_def failure_eq reads)
  qed
qed

section \<open>map and mapCatching\<close>

text \<open>
  C4, as amended. Let \<open>v\<close> be neither \<open>undefined\<close> nor an instance of \<open>Failure\<close>. Then
  \<open>map(f)\<close> on the outcome \<open>Result.success(v)\<close> is \<open>Result.success(f(v))\<close>: it returns what
  \<open>Result.success\<close> returns for the value of \<open>f(v)\<close>, and throws what \<open>f(v)\<close> throws. For
  every \<open>e\<close>, \<open>map(f)\<close> on the outcome \<open>Result.failure(e)\<close> is \<open>Result.failure(e)\<close>, whatever
  \<open>f\<close> is: a failure whose \<open>exceptionOrNull()\<close> is \<open>e\<close>, with the rest of the program's state
  untouched, so \<open>f\<close> has not run.
\<close>

theorem map_Result_cases:
  assumes "v \<noteq> Undefined" and "\<not> instanceof_Failure v"
  shows "(case success v s of
            (Return this, s1) \<Rightarrow>
               map_Result this f s1 =
                 (case f v s1 of (Return y, s2) \<Rightarrow> success y s2 | (Throw x, s2) \<Rightarrow> (Throw x, s2))
          | (Throw x, s1) \<Rightarrow> False) \<and>
         (case failure e s of
            (Return this, s1) \<Rightarrow>
               map_Result this f s1 = failure e s1 \<and>
               (case map_Result this f s1 of
                  (Return r, s2) \<Rightarrow>
                     isFailure r s2 \<and> exceptionOrNull r s2 = e \<and> user s2 = user s
                | (Throw x, s2) \<Rightarrow> False)
          | (Throw x, s1) \<Rightarrow> False)"
  using assms
  by (simp add: success_eq failure_eq map_Result_def js_bind_def reads
      split: prod.splits completion.splits)

text \<open>
  A transform that counts its calls in \<open>user\<close>: on a success it has run once, on a failure
  it has not run.
\<close>

theorem map_Result_cases_witness:
  "Number 2 \<noteq> Undefined \<and> \<not> instanceof_Failure (Number 2) \<and>
   map_Result 0 (\<lambda>v s. (Return (Str ''seen''), s\<lparr>user := Suc (user s)\<rparr>))
       (snd (success (Number 2) \<lparr>results = [], user = 0::nat\<rparr>)) =
     success (Str ''seen'') (snd (success (Number 2) \<lparr>results = [], user = 1::nat\<rparr>)) \<and>
   map_Result 0 (\<lambda>v s. (Return (Str ''seen''), s\<lparr>user := Suc (user s)\<rparr>))
       (snd (failure (Object 3) \<lparr>results = [], user = 0::nat\<rparr>)) =
     failure (Object 3) (snd (failure (Object 3) \<lparr>results = [], user = 0::nat\<rparr>))"
  using map_Result_cases [where v = "Number 2" and s = "\<lparr>results = [], user = 0::nat\<rparr>"
      and f = "\<lambda>v s. (Return (Str ''seen''), s\<lparr>user := Suc (user s)\<rparr>)" and e = "Object 3"]
  by (simp add: success_eq failure_eq)

text \<open>
  C4 as it is written fails at two values. On \<open>Result.success(new Failure(o))\<close>, \<open>map\<close> with
  the transform that returns 1 gives \<open>Result.failure(o)\<close>, not \<open>Result.success(1)\<close>. On
  \<open>Result.success(undefined)\<close>, \<open>map\<close> with the transform \<open>v => v === undefined\<close> gives
  \<open>Result.success(false)\<close>, since the transform is applied to \<open>null\<close>, while
  \<open>Result.success(f(undefined))\<close> is \<open>Result.success(true)\<close>.
\<close>

theorem map_Result_counterexample:
  "map_Result 0 (\<lambda>v s. (Return (Number 1), s))
       (snd (success (Failure (Object 1)) \<lparr>results = [], user = ()\<rparr>)) =
     failure (Object 1) (snd (success (Failure (Object 1)) \<lparr>results = [], user = ()\<rparr>)) \<and>
   map_Result 0 (\<lambda>v s. (Return (Number 1), s))
       (snd (success (Failure (Object 1)) \<lparr>results = [], user = ()\<rparr>)) \<noteq>
     success (Number 1) (snd (success (Failure (Object 1)) \<lparr>results = [], user = ()\<rparr>)) \<and>
   map_Result 0 (\<lambda>v s. (Return (Boolean (v = Undefined)), s))
       (snd (success Undefined \<lparr>results = [], user = ()\<rparr>)) =
     success (Boolean False) (snd (success Undefined \<lparr>results = [], user = ()\<rparr>)) \<and>
   map_Result 0 (\<lambda>v s. (Return (Boolean (v = Undefined)), s))
       (snd (success Undefined \<lparr>results = [], user = ()\<rparr>)) \<noteq>
     success (Boolean (Undefined = Undefined))
       (snd (success Undefined \<lparr>results = [], user = ()\<rparr>))"
  by (simp add: success_eq failure_eq map_Result_def js_bind_def reads)

text \<open>
  C5. On an outcome that is a success, when the transform \<open>f\<close> applied to the stored value
  throws \<open>e2\<close>, \<open>mapCatching(f)\<close> returns \<open>Result.failure(e2)\<close>, built in the state \<open>f\<close> left:
  it returns an outcome, a failure whose \<open>exceptionOrNull()\<close> is \<open>e2\<close>, and throws nothing. On
  an outcome that is a failure, \<open>mapCatching(f)\<close> returns \<open>Result.failure\<close> of the captured
  error, whatever \<open>f\<close> is, with the rest of the program's state untouched: \<open>f\<close> has not run.
\<close>

theorem mapCatching_cases:
  "(isSuccess this s \<and> f (getOrNull this s) s = (Throw e2, s1) \<longrightarrow>
      mapCatching this f s = failure e2 s1 \<and>
      (case mapCatching this f s of
         (Return r, s2) \<Rightarrow> isFailure r s2 \<and> exceptionOrNull r s2 = e2
       | (Throw x, s2) \<Rightarrow> False)) \<and>
   (isFailure this s \<longrightarrow>
      mapCatching this f s = failure (exceptionOrNull this s) s \<and>
      (case mapCatching this f s of
         (Return r, s2) \<Rightarrow>
            isFailure r s2 \<and> exceptionOrNull r s2 = exceptionOrNull this s \<and> user s2 = user s
       | (Throw x, s2) \<Rightarrow> False))"
  by (simp add: mapCatching_def runCatching_def js_try_def js_bind_def failure_eq reads)

theorem mapCatching_cases_witness:
  "isSuccess 0 (snd (success (Number 2) \<lparr>results = [], user = 0::nat\<rparr>)) \<and>
   mapCatching 0 (\<lambda>v s. (Throw (Object 9), s\<lparr>user := Suc (user s)\<rparr>))
       (snd (success (Number 2) \<lparr>results = [], user = 0::nat\<rparr>)) =
     failure (Object 9) (snd (success (Number 2) \<lparr>results = [], user = 1::nat\<rparr>)) \<and>
   isFailure 0 (snd (failure (Object 3) \<lparr>results = [], user = 0::nat\<rparr>)) \<and>
   mapCatching 0 (\<lambda>v s. (Throw (Object 9), s\<lparr>user := Suc (user s)\<rparr>))
       (snd (failure (Object 3) \<lparr>results = [], user = 0::nat\<rparr>)) =
     failure (Object 3) (snd (failure (Object 3) \<lparr>results = [], user = 0::nat\<rparr>))"
  using mapCatching_cases [where this = 0
      and s = "snd (success (Number 2) \<lparr>results = [], user = 0::nat\<rparr>)"
      and f = "\<lambda>v s. (Throw (Object 9), s\<lparr>user := Suc (user s)\<rparr>)"
      and ?e2.0 = "Object 9"
      and ?s1.0 = "snd (success (Number 2) \<lparr>results = [], user = 1::nat\<rparr>)"]
    mapCatching_cases [where this = 0
      and s = "snd (failure (Object 3) \<lparr>results = [], user = 0::nat\<rparr>)"
      and f = "\<lambda>v s. (Throw (Object 9), s\<lparr>user := Suc (user s)\<rparr>)"]
  by (simp add: success_eq failure_eq reads)

section \<open>recover and recoverCatching\<close>

text \<open>
  C6, at a failing input. \<open>runCatching(() => { throw 0 })\<close> is \<open>Result.failure(0)\<close>, the
  outcome at reference 0 of the empty store: it is a failure and its \<open>exceptionOrNull()\<close> is
  0. On this outcome \<open>recover(g)\<close>, with a \<open>g\<close> that counts its calls in \<open>user\<close>, returns
  the same reference and leaves the state as it was: \<open>g\<close> has not run, and the result is not
  \<open>Result.success(g(0))\<close>.
\<close>

theorem recover_falsy_failure_evaluation:
  "runCatching (\<lambda>s. (Throw (Number 0), s)) \<lparr>results = [], user = 0::nat\<rparr> =
     failure (Number 0) \<lparr>results = [], user = 0::nat\<rparr> \<and>
   fst (failure (Number 0) \<lparr>results = [], user = 0::nat\<rparr>) = Return 0 \<and>
   isFailure 0 (snd (failure (Number 0) \<lparr>results = [], user = 0::nat\<rparr>)) \<and>
   exceptionOrNull 0 (snd (failure (Number 0) \<lparr>results = [], user = 0::nat\<rparr>)) = Number 0 \<and>
   recover 0 (\<lambda>e s. (Return (Str ''recovered''), s\<lparr>user := Suc (user s)\<rparr>))
       (snd (failure (Number 0) \<lparr>results = [], user = 0::nat\<rparr>)) =
     (Return 0, snd (failure (Number 0) \<lparr>results = [], user = 0::nat\<rparr>)) \<and>
   recover 0 (\<lambda>e s. (Return (Str ''recovered''), s\<lparr>user := Suc (user s)\<rparr>))
       (snd (failure (Number 0) \<lparr>results = [], user = 0::nat\<rparr>)) \<noteq>
     success (Str ''recovered'') (snd (failure (Number 0) \<lparr>results = [], user = 1::nat\<rparr>))"
  by (simp add: runCatching_def js_try_def js_bind_def success_eq failure_eq recover_def reads)

text \<open>
  C7. For every \<open>e\<close>, \<open>recoverCatching\<close> with the callback \<open>err => { throw err }\<close> on the
  outcome \<open>Result.failure(e)\<close> returns an outcome that is a failure and whose
  \<open>exceptionOrNull()\<close> is \<open>e\<close>.
\<close>

theorem recoverCatching_rethrow_roundtrip:
  "(case failure e s of
      (Return this, s1) \<Rightarrow>
         (case recoverCatching this (\<lambda>err s'. (Throw err, s')) s1 of
            (Return r, s2) \<Rightarrow> isFailure r s2 \<and> exceptionOrNull r s2 = e
          | (Throw x, s2) \<Rightarrow> False)
    | (Throw x, s1) \<Rightarrow> False)"
  by (simp add: failure_eq recoverCatching_def runCatching_def js_try_def js_bind_def reads)

section \<open>getOrThrow and throwOnFailure\<close>

text \<open>
  C8. On an outcome that is a success, \<open>getOrThrow()\<close> returns the stored value, the one
  \<open>getOrNull()\<close> gives, and \<open>throwOnFailure()\<close> returns; neither throws. On an outcome that is
  a failure, both throw the captured error, the one \<open>exceptionOrNull()\<close> gives. On the outcome
  \<open>Result.failure(e)\<close> both throw \<open>e\<close> itself. The state is left as it was in every case.
\<close>

theorem getOrThrow_cases:
  "(isSuccess this s \<longrightarrow>
      getOrThrow this s = (Return (getOrNull this s), s) \<and> throwOnFailure this s = (Return (), s)) \<and>
   (isFailure this s \<longrightarrow>
      getOrThrow this s = (Throw (exceptionOrNull this s), s) \<and>
      throwOnFailure this s = (Throw (exceptionOrNull this s), s)) \<and>
   (case failure e s of
      (Return r, s1) \<Rightarrow> getOrThrow r s1 = (Throw e, s1) \<and> throwOnFailure r s1 = (Throw e, s1)
    | (Throw x, s1) \<Rightarrow> False)"
  by (simp add: getOrThrow_def throwOnFailure_def js_bind_def failure_eq reads)

theorem getOrThrow_cases_witness:
  "isSuccess 0 (snd (success (Str ''ok'') \<lparr>results = [], user = ()\<rparr>)) \<and>
   getOrThrow 0 (snd (success (Str ''ok'') \<lparr>results = [], user = ()\<rparr>)) =
     (Return (Str ''ok''), snd (success (Str ''ok'') \<lparr>results = [], user = ()\<rparr>)) \<and>
   throwOnFailure 0 (snd (success (Str ''ok'') \<lparr>results = [], user = ()\<rparr>)) =
     (Return (), snd (success (Str ''ok'') \<lparr>results = [], user = ()\<rparr>)) \<and>
   isFailure 0 (snd (failure (Object 4) \<lparr>results = [], user = ()\<rparr>)) \<and>
   getOrThrow 0 (snd (failure (Object 4) \<lparr>results = [], user = ()\<rparr>)) =
     (Throw (Object 4), snd (failure (Object 4) \<lparr>results = [], user = ()\<rparr>)) \<and>
   throwOnFailure 0 (snd (failure (Object 4) \<lparr>results = [], user = ()\<rparr>)) =
     (Throw (Object 4), snd (failure (Object 4) \<lparr>results = [], user = ()\<rparr>))"
  using getOrThrow_cases [where this = 0
      and s = "snd (success (Str ''ok'') \<lparr>results = [], user = ()\<rparr>)"]
    getOrThrow_cases [where this = 0
      and s = "snd (failure (Object 4) \<lparr>results = [], user = ()\<rparr>)"]
  by (simp add: success_eq failure_eq reads)

section \<open>Outcomes and what the operations write\<close>




section \<open>recover and recoverCatching on a falsy error\<close>

text \<open>
  C10. \<open>recover\<close> and \<open>recoverCatching\<close> test the captured error, not the classification.
  For every falsy \<open>e\<close>, the outcome \<open>Result.failure(e)\<close> is a failure whose
  \<open>exceptionOrNull()\<close> is \<open>e\<close>, and on it both return the same reference and leave the state
  as it was, whatever the callback \<open>g\<close> is: \<open>g\<close> has not run. The same holds of every outcome
  that is a failure and whose \<open>exceptionOrNull()\<close> is falsy.
\<close>

theorem recover_falsy_error:
  assumes "\<not> truthy e"
  shows "(case failure e s of
            (Return this, s1) \<Rightarrow>
               isFailure this s1 \<and> exceptionOrNull this s1 = e \<and>
               recover this g s1 = (Return this, s1) \<and>
               recoverCatching this g s1 = (Return this, s1)
          | (Throw x, s1) \<Rightarrow> False) \<and>
         (isFailure this s \<and> \<not> truthy (exceptionOrNull this s) \<longrightarrow>
            recover this g s = (Return this, s) \<and> recoverCatching this g s = (Return this, s))"
  using assms
  by (simp add: failure_eq recover_def recoverCatching_def reads)

theorem recover_falsy_error_witness:
  "\<not> truthy (Str '''') \<and>
   isFailure 0 (snd (failure (Str '''') \<lparr>results = [], user = 0::nat\<rparr>)) \<and>
   \<not> truthy (exceptionOrNull 0 (snd (failure (Str '''') \<lparr>results = [], user = 0::nat\<rparr>))) \<and>
   recover 0 (\<lambda>e s. (Return Null, s\<lparr>user := Suc (user s)\<rparr>))
       (snd (failure (Str '''') \<lparr>results = [], user = 0::nat\<rparr>)) =
     (Return 0, snd (failure (Str '''') \<lparr>results = [], user = 0::nat\<rparr>)) \<and>
   recoverCatching 0 (\<lambda>e s. (Return Null, s\<lparr>user := Suc (user s)\<rparr>))
       (snd (failure (Str '''') \<lparr>results = [], user = 0::nat\<rparr>)) =
     (Return 0, snd (failure (Str '''') \<lparr>results = [], user = 0::nat\<rparr>))"
  using recover_falsy_error [where e = "Str ''''" and this = 0
      and s = "snd (failure (Str '''') \<lparr>results = [], user = 0::nat\<rparr>)"
      and g = "\<lambda>e s. (Return Null, s\<lparr>user := Suc (user s)\<rparr>)"]
  by (simp add: failure_eq reads)

end
